theory Spec2Isabelle
  imports Complex_Main
begin

section \<open>Vertex welding (packages/functions/src/weld.ts)\<close>

text \<open>
  The development embeds the functions of \<^verbatim>\<open>weld.ts\<close>: \<^verbatim>\<open>weld\<close>, \<^verbatim>\<open>weldPrimitive\<close>,
  \<^verbatim>\<open>_indexPrimitive\<close>, \<^verbatim>\<open>_weldPrimitive\<close>, \<^verbatim>\<open>swapAttributes\<close>, \<^verbatim>\<open>getAttributeTolerance\<close>,
  \<^verbatim>\<open>compareAttributes\<close>, \<^verbatim>\<open>getGridNeighborhoodKeys\<close> and \<^verbatim>\<open>getGridKey\<close>.

  Conventions of the embedding.
  \<^item> A JavaScript number is a \<^typ>\<open>real\<close>: the rounding of double arithmetic, infinities and
    NaN are not represented. \<^verbatim>\<open>Math.round\<close> is \<open>jsRound\<close> (nearest integer, ties upwards).
    \<^verbatim>\<open>Math.fround\<close> is a parameter \<open>fr\<close> of every function that reaches \<^verbatim>\<open>getGridKey\<close>.
  \<^item> A grid key is the string \<^verbatim>\<open>cellX + ':' + cellY + ':' + cellZ\<close>. Two such strings are
    equal exactly when the three numbers are equal, so a key is the triple of numbers.
  \<^item> A primitive is a value: its attribute list (in the order of \<^verbatim>\<open>listSemantics\<close>), its
    optional index array, its mode and the attribute lists of its morph targets. The
    document's list of accessors, the sharing of accessors between primitives and their
    disposal are not represented.
  \<^item> The private functions \<^verbatim>\<open>_indexPrimitive\<close> and \<^verbatim>\<open>_weldPrimitive\<close> are named
    \<open>priv_indexPrimitive\<close> and \<open>priv_weldPrimitive\<close>.
  \<^item> A typed array does not raise on an index past its end: the read yields
    \<^verbatim>\<open>undefined\<close> and the write is dropped. For \<^verbatim>\<open>weldMap\<close>, \<^verbatim>\<open>writeMap\<close> and the element
    reads of an accessor the embedding makes such an access an error value
    (\<open>MapRange\<close>, \<open>AccessorRange\<close>) and stops there. The source goes on: with a candidate
    \<^verbatim>\<open>b = weldMap[j]\<close> that is \<^verbatim>\<open>undefined\<close> every difference in \<^verbatim>\<open>compareAttributes\<close> is NaN,
    which is not greater than the tolerance, so the comparison reports a match; a store
    past the end of a map is dropped; and \<^verbatim>\<open>undefined\<close> stored into a typed array becomes
    0. None of this is represented: a result \<open>Inr\<close> of the embedding is the result of a
    run of the source without such an access, and a statement that assumes one speaks
    of those runs only. Writes past the end of the arrays allocated in \<^verbatim>\<open>swapAttributes\<close>
    are dropped, as the typed array does.
\<close>

subsection \<open>Errors, options, accessors, primitives\<close>

datatype error =
    ConfigError
  | MissingPosition
  | MissingAttribute
  | AccessorRange
  | MapRange

text \<open>\<^verbatim>\<open>const Tolerance = { DEFAULT, TEXCOORD, COLOR, NORMAL, JOINTS, WEIGHTS }\<close>\<close>

definition Tolerance_DEFAULT :: real where "Tolerance_DEFAULT = 0.0001"
definition Tolerance_TEXCOORD :: real where "Tolerance_TEXCOORD = 0.0001"
definition Tolerance_COLOR :: real where "Tolerance_COLOR = 0.01"
definition Tolerance_NORMAL :: real where "Tolerance_NORMAL = 0.5"
definition Tolerance_JOINTS :: real where "Tolerance_JOINTS = 0.0"
definition Tolerance_WEIGHTS :: real where "Tolerance_WEIGHTS = 0.01"

text \<open>\<^verbatim>\<open>WeldOptions\<close>: both fields are optional; \<open>None\<close> is an absent field.\<close>

record weldOptions =
  tolerance_opt :: "real option"
  overwrite_opt :: "bool option"

text \<open>\<^verbatim>\<open>Required<WeldOptions>\<close>\<close>

record options =
  tolerance :: real
  overwrite :: bool

definition WELD_DEFAULTS :: options where
  "WELD_DEFAULTS = \<lparr>tolerance = Tolerance_DEFAULT, overwrite = True\<rparr>"

text \<open>\<^verbatim>\<open>{ ...WELD_DEFAULTS, ..._options }\<close>\<close>

definition resolveOptions :: "weldOptions \<Rightarrow> options" where
  "resolveOptions opts =
     \<lparr>tolerance = (case tolerance_opt opts of None \<Rightarrow> tolerance WELD_DEFAULTS | Some t \<Rightarrow> t),
      overwrite = (case overwrite_opt opts of None \<Rightarrow> overwrite WELD_DEFAULTS | Some b \<Rightarrow> b)\<rparr>"

text \<open>
  Modelled from the spec: the class \<^verbatim>\<open>Accessor\<close> of the core package is not among the
  source files. The spec (section 3): an attribute is a typed numeric buffer with
  \<open>count\<close> elements of \<open>elementSize\<close> components each. The array holds the values that
  \<^verbatim>\<open>getElement\<close> returns (for a normalized accessor, the decoded ones).
\<close>

record accessor =
  elementSize :: nat
  array :: "real list"

definition getCount :: "accessor \<Rightarrow> nat" where
  "getCount acc = length (array acc) div elementSize acc"

definition getElement :: "accessor \<Rightarrow> nat \<Rightarrow> error + real list" where
  "getElement acc i =
     (if (i + 1) * elementSize acc \<le> length (array acc)
      then Inr (map (\<lambda>k. array acc ! (i * elementSize acc + k)) [0..<elementSize acc])
      else Inl AccessorRange)"

text \<open>
  \<^verbatim>\<open>setElement(index, value)\<close> stores \<open>value[k]\<close> at \<open>index * elementSize + k\<close>; a store past
  the end of the typed array is dropped, which is what \<open>list_update\<close> does.
\<close>

definition setElement :: "nat \<Rightarrow> real list \<Rightarrow> nat \<Rightarrow> real list \<Rightarrow> real list" where
  "setElement es arr i el = fold (\<lambda>k a. a[i * es + k := el ! k]) [0..<es] arr"

text \<open>
  Modelled from the spec: the class \<^verbatim>\<open>Primitive\<close> and its \<^verbatim>\<open>Mode\<close> of the core package are
  not among the source files. The spec (section 3): a primitive is an ordered set of
  attributes, an optional index buffer of unsigned integers, a draw mode and zero or more
  morph targets, each a set of attributes. \<^verbatim>\<open>listSemantics\<close> and \<^verbatim>\<open>listAttributes\<close> give the
  names and the accessors in that order, \<^verbatim>\<open>getAttribute\<close> the accessor of a name.
\<close>

datatype mode = POINTS | LINES | LINE_LOOP | LINE_STRIP | TRIANGLES | TRIANGLE_STRIP | TRIANGLE_FAN

record primitive =
  attributes :: "(string \<times> accessor) list"
  indices :: "nat list option"
  mode :: mode
  targets :: "(string \<times> accessor) list list"

type_synonym document = "primitive list list"

definition listSemantics :: "(string \<times> accessor) list \<Rightarrow> string list" where
  "listSemantics attrs = map fst attrs"

definition getAttribute :: "(string \<times> accessor) list \<Rightarrow> string \<Rightarrow> accessor option" where
  "getAttribute attrs semantic = map_of attrs semantic"

text \<open>
  Modelled from the spec: \<^verbatim>\<open>createIndices\<close> of \<^verbatim>\<open>utils.ts\<close> is not among the source files.
  The spec (section 4.5): a trivial identity index \<open>[0..count)\<close>. The element width of the
  array (16 or 32 bits) is not represented: every value the code stores in such an array
  is a vertex index or a vertex count of the primitive.
\<close>

definition createIndices :: "nat \<Rightarrow> nat list" where
  "createIndices count = [0..<count]"

subsection \<open>Tolerances and comparison\<close>

definition startsWith :: "string \<Rightarrow> string \<Rightarrow> bool" where
  "startsWith s p = (take (length p) s = p)"

text \<open>
  Modelled from the spec: \<^verbatim>\<open>getMinNormalized\<close> and \<^verbatim>\<open>getMaxNormalized\<close> are methods of the
  absent \<^verbatim>\<open>Accessor\<close>. The spec (section 4.1): range = (max of normalized max values) -
  (min of normalized min values) across the attribute's components, 1 if that is zero.
  The smallest of the per-component minima is the smallest value of the array. For an
  accessor without values the source computes with infinities; no vertex is compared then,
  and the model takes 1.
\<close>

definition attributeRange :: "accessor \<Rightarrow> real" where
  "attributeRange attribute =
     (if array attribute = [] then 1
      else let range = Max (set (array attribute)) - Min (set (array attribute))
           in if range = 0 then 1 else range)"

definition getAttributeTolerance :: "string \<Rightarrow> accessor \<Rightarrow> real \<Rightarrow> real" where
  "getAttributeTolerance semantic attribute tol =
     (if semantic = ''NORMAL'' \<or> semantic = ''TANGENT'' then Tolerance_NORMAL
      else if startsWith semantic ''COLOR_'' then Tolerance_COLOR
      else if startsWith semantic ''TEXCOORD_'' then Tolerance_TEXCOORD
      else if startsWith semantic ''JOINTS_'' then Tolerance_JOINTS
      else if startsWith semantic ''WEIGHTS_'' then Tolerance_WEIGHTS
      else tol * attributeRange attribute)"

text \<open>
  \<^verbatim>\<open>attributeTolerance[semantic]\<close> is \<^verbatim>\<open>undefined\<close> for a semantic that only a morph target
  has; \<^verbatim>\<open>x > undefined\<close> is false, so no component exceeds an undefined tolerance.
\<close>

definition exceeds :: "real \<Rightarrow> real option \<Rightarrow> bool" where
  "exceeds d tol = (case tol of None \<Rightarrow> False | Some t \<Rightarrow> d > t)"

definition compareAttributes :: "accessor \<Rightarrow> nat \<Rightarrow> nat \<Rightarrow> real option \<Rightarrow> error + bool" where
  "compareAttributes attribute a b tol =
     (case getElement attribute a of Inl e \<Rightarrow> Inl e
      | Inr ea \<Rightarrow>
        (case getElement attribute b of Inl e \<Rightarrow> Inl e
         | Inr eb \<Rightarrow>
           Inr (list_all (\<lambda>i. \<not> exceeds \<bar>ea ! i - eb ! i\<bar> tol) [0..<elementSize attribute])))"

subsection \<open>The spatial grid\<close>

type_synonym key = "real \<times> real \<times> real"

definition jsRound :: "real \<Rightarrow> real" where
  "jsRound x = of_int \<lfloor>x + 1 / 2\<rfloor>"

definition getGridKey :: "(real \<Rightarrow> real) \<Rightarrow> real \<Rightarrow> real \<Rightarrow> real \<Rightarrow> real \<Rightarrow> key" where
  "getGridKey fr x y z cellSize =
     (let cellX = fr (x * jsRound (x / cellSize));
          cellY = fr (y * jsRound (y / cellSize));
          cellZ = fr (z * jsRound (z / cellSize))
      in (cellX, cellY, cellZ))"

text \<open>The three nested loops, each from -1 to 1, pushing one key per iteration.\<close>

definition loop3 :: "(real \<Rightarrow> 'a list \<Rightarrow> 'a list) \<Rightarrow> 'a list \<Rightarrow> 'a list" where
  "loop3 body keys = body 1 (body 0 (body (- 1) keys))"

definition getGridNeighborhoodKeys ::
  "(real \<Rightarrow> real) \<Rightarrow> real \<Rightarrow> real \<Rightarrow> real \<Rightarrow> real \<Rightarrow> key list" where
  "getGridNeighborhoodKeys fr x y z cellSize =
     (let hc = cellSize / 2 in
      loop3 (\<lambda>i. loop3 (\<lambda>j. loop3 (\<lambda>k keys.
        keys @ [getGridKey fr (x + i * hc) (y + j * hc) (z + k * hc) cellSize]))) [])"

subsection \<open>The matcher\<close>

text \<open>\<^verbatim>\<open>new Uint32Array(new Set(array))\<close>: the distinct values, in the order of their first
  occurrence.\<close>

fun uniqueValues :: "nat list \<Rightarrow> nat list" where
  "uniqueValues [] = []"
| "uniqueValues (x # xs) = x # filter (\<lambda>y. y \<noteq> x) (uniqueValues xs)"

text \<open>\<^verbatim>\<open>posA = [0, 0, 0]\<close> is filled by \<^verbatim>\<open>getElement\<close> with the components of the element; an
  entry the element does not have keeps its 0.\<close>

definition coord :: "real list \<Rightarrow> nat \<Rightarrow> real" where
  "coord p k = (if k < length p then p ! k else 0)"

type_synonym grid = "key \<rightharpoonup> nat list"

text \<open>\<^verbatim>\<open>grid[key] = grid[key] || []; grid[key].push(uniqueIndices[i])\<close>\<close>

fun buildGrid :: "(real \<Rightarrow> real) \<Rightarrow> accessor \<Rightarrow> real \<Rightarrow> nat list \<Rightarrow> grid \<Rightarrow> error + grid" where
  "buildGrid fr srcPosition cellSize [] grid = Inr grid"
| "buildGrid fr srcPosition cellSize (v # vs) grid =
     (case getElement srcPosition v of Inl e \<Rightarrow> Inl e
      | Inr posA \<Rightarrow>
        (let key = getGridKey fr (coord posA 0) (coord posA 1) (coord posA 2) cellSize;
             cell = (case grid key of None \<Rightarrow> [] | Some c \<Rightarrow> c)
         in buildGrid fr srcPosition cellSize vs (grid(key \<mapsto> cell @ [v]))))"

type_synonym toleranceTable = "string \<rightharpoonup> real"

definition attributeTolerances :: "(string \<times> accessor) list \<Rightarrow> real \<Rightarrow> toleranceTable" where
  "attributeTolerances attrs tol =
     fold (\<lambda>semantic tt.
             case getAttribute attrs semantic of None \<Rightarrow> tt
             | Some attribute \<Rightarrow> tt(semantic \<mapsto> getAttributeTolerance semantic attribute tol))
          (listSemantics attrs) Map.empty"

text \<open>\<^verbatim>\<open>Array.prototype.every\<close> stops at the first element that fails.\<close>

fun every :: "('a \<Rightarrow> error + bool) \<Rightarrow> 'a list \<Rightarrow> error + bool" where
  "every f [] = Inr True"
| "every f (x # xs) =
     (case f x of Inl e \<Rightarrow> Inl e | Inr ok \<Rightarrow> if ok then every f xs else Inr False)"

definition semanticsMatch ::
  "toleranceTable \<Rightarrow> (string \<times> accessor) list \<Rightarrow> nat \<Rightarrow> nat \<Rightarrow> error + bool" where
  "semanticsMatch tt attrs a b =
     every (\<lambda>semantic.
              case getAttribute attrs semantic of None \<Rightarrow> Inl MissingAttribute
              | Some attribute \<Rightarrow> compareAttributes attribute a b (tt semantic))
           (listSemantics attrs)"

definition isMatch :: "toleranceTable \<Rightarrow> primitive \<Rightarrow> nat \<Rightarrow> nat \<Rightarrow> error + bool" where
  "isMatch tt prim a b =
     (case semanticsMatch tt (attributes prim) a b of Inl e \<Rightarrow> Inl e
      | Inr isBaseMatch \<Rightarrow>
        (case every (\<lambda>target. semanticsMatch tt target a b) (targets prim) of Inl e \<Rightarrow> Inl e
         | Inr isTargetMatch \<Rightarrow> Inr (isBaseMatch \<and> isTargetMatch)))"

record weldState =
  weldMap :: "nat list"
  writeMap :: "nat list"
  dstVertexCount :: nat
  searchIters :: nat

text \<open>The inner loop \<^verbatim>\<open>for (const j of grid[cellKey])\<close>; its \<^verbatim>\<open>break\<close> leaves this loop.\<close>

fun searchCell ::
  "toleranceTable \<Rightarrow> primitive \<Rightarrow> accessor \<Rightarrow> nat \<Rightarrow> nat list \<Rightarrow> weldState \<Rightarrow> error + weldState" where
  "searchCell tt prim srcPosition a [] st = Inr st"
| "searchCell tt prim srcPosition a (j # js) st =
     (if j < length (weldMap st) then
        (let b = weldMap st ! j in
         case getElement srcPosition b of Inl e \<Rightarrow> Inl e
         | Inr posB \<Rightarrow>
           (let st1 = st\<lparr>searchIters := searchIters st + 1\<rparr> in
            case isMatch tt prim a b of Inl e \<Rightarrow> Inl e
            | Inr ok \<Rightarrow>
              if ok then
                (if a < length (weldMap st1)
                 then Inr (st1\<lparr>weldMap := (weldMap st1)[a := b]\<rparr>)
                 else Inl MapRange)
              else searchCell tt prim srcPosition a js st1))
      else Inl MapRange)"

text \<open>The outer loop \<^verbatim>\<open>for (const cellKey of getGridNeighborhoodKeys(...))\<close>.\<close>

fun searchNeighborhood ::
  "toleranceTable \<Rightarrow> primitive \<Rightarrow> accessor \<Rightarrow> grid \<Rightarrow> nat \<Rightarrow> key list \<Rightarrow> weldState
     \<Rightarrow> error + weldState" where
  "searchNeighborhood tt prim srcPosition grid a [] st = Inr st"
| "searchNeighborhood tt prim srcPosition grid a (cellKey # cellKeys) st =
     (case grid cellKey of
        None \<Rightarrow> searchNeighborhood tt prim srcPosition grid a cellKeys st
      | Some cell \<Rightarrow>
        (case searchCell tt prim srcPosition a cell st of Inl e \<Rightarrow> Inl e
         | Inr st1 \<Rightarrow> searchNeighborhood tt prim srcPosition grid a cellKeys st1))"

text \<open>\<^verbatim>\<open>if (weldMap[a] === a) writeMap[a] = dstVertexCount++; else writeMap[a] = writeMap[weldMap[a]]\<close>\<close>

definition recordVertex :: "nat \<Rightarrow> weldState \<Rightarrow> error + weldState" where
  "recordVertex a st =
     (if a < length (weldMap st) then
        (if weldMap st ! a = a then
           (if a < length (writeMap st)
            then Inr (st\<lparr>writeMap := (writeMap st)[a := dstVertexCount st],
                         dstVertexCount := dstVertexCount st + 1\<rparr>)
            else Inl MapRange)
         else
           (if weldMap st ! a < length (writeMap st) \<and> a < length (writeMap st)
            then Inr (st\<lparr>writeMap := (writeMap st)[a := writeMap st ! (weldMap st ! a)]\<rparr>)
            else Inl MapRange))
      else Inl MapRange)"

text \<open>One iteration of the loop over \<^verbatim>\<open>uniqueIndices\<close>, for the vertex \<open>a\<close>.\<close>

definition weldVertex ::
  "(real \<Rightarrow> real) \<Rightarrow> toleranceTable \<Rightarrow> primitive \<Rightarrow> accessor \<Rightarrow> grid \<Rightarrow> real \<Rightarrow> nat \<Rightarrow> weldState
     \<Rightarrow> error + weldState" where
  "weldVertex fr tt prim srcPosition grid cellSize a st =
     (case getElement srcPosition a of Inl e \<Rightarrow> Inl e
      | Inr posA \<Rightarrow>
        (case searchNeighborhood tt prim srcPosition grid a
                (getGridNeighborhoodKeys fr (coord posA 0) (coord posA 1) (coord posA 2) cellSize) st
         of Inl e \<Rightarrow> Inl e
          | Inr st1 \<Rightarrow> recordVertex a st1))"

fun weldLoop ::
  "(real \<Rightarrow> real) \<Rightarrow> toleranceTable \<Rightarrow> primitive \<Rightarrow> accessor \<Rightarrow> grid \<Rightarrow> real \<Rightarrow> nat list \<Rightarrow> weldState
     \<Rightarrow> error + weldState" where
  "weldLoop fr tt prim srcPosition grid cellSize [] st = Inr st"
| "weldLoop fr tt prim srcPosition grid cellSize (a # as) st =
     (case weldVertex fr tt prim srcPosition grid cellSize a st of Inl e \<Rightarrow> Inl e
      | Inr st1 \<Rightarrow> weldLoop fr tt prim srcPosition grid cellSize as st1)"

text \<open>\<^verbatim>\<open>Number.EPSILON\<close>\<close>

definition EPSILON :: real where
  "EPSILON = 1 / 2 ^ 52"

text \<open>Steps (1) and (2) of \<^verbatim>\<open>_weldPrimitive\<close>: the source indices and the state when the
  loop over the unique indices ends.\<close>

definition sourceIndices :: "primitive \<Rightarrow> accessor \<Rightarrow> nat list" where
  "sourceIndices prim srcPosition =
     (case indices prim of Some ix \<Rightarrow> ix | None \<Rightarrow> createIndices (getCount srcPosition))"

definition initialState :: "nat \<Rightarrow> weldState" where
  "initialState n =
     \<lparr>weldMap = createIndices n, writeMap = createIndices n, dstVertexCount = 0, searchIters = 0\<rparr>"

definition weldMatcher :: "(real \<Rightarrow> real) \<Rightarrow> primitive \<Rightarrow> options \<Rightarrow> error + weldState" where
  "weldMatcher fr prim options =
     (case getAttribute (attributes prim) ''POSITION'' of None \<Rightarrow> Inl MissingPosition
      | Some srcPosition \<Rightarrow>
        (let uniqueIndices = uniqueValues (sourceIndices prim srcPosition);
             tt = attributeTolerances (attributes prim) (max (tolerance options) EPSILON)
         in case tt ''POSITION'' of None \<Rightarrow> Inl MissingPosition
            | Some cellSize \<Rightarrow>
              (case buildGrid fr srcPosition cellSize uniqueIndices Map.empty of Inl e \<Rightarrow> Inl e
               | Inr grid \<Rightarrow>
                 weldLoop fr tt prim srcPosition grid cellSize uniqueIndices
                   (initialState (length uniqueIndices)))))"

subsection \<open>The compactor\<close>

text \<open>Step (3): \<^verbatim>\<open>dstIndicesArray[i] = writeMap[srcIndices.getScalar(i)]\<close>\<close>

fun remapIndices :: "nat list \<Rightarrow> nat list \<Rightarrow> error + nat list" where
  "remapIndices wm [] = Inr []"
| "remapIndices wm (v # vs) =
     (if v < length wm
      then (case remapIndices wm vs of Inl e \<Rightarrow> Inl e | Inr rest \<Rightarrow> Inr (wm ! v # rest))
      else Inl MapRange)"

text \<open>The loop of \<^verbatim>\<open>swapAttributes\<close> over \<open>i < reorder.length\<close>. A slot \<open>reorder[i]\<close> that is not
  below \<open>dstCount\<close> is past the end of \<open>done\<close> and of the new array: the test reads
  \<^verbatim>\<open>undefined\<close>, the element is read from the source and both stores are dropped.\<close>

fun swapLoop ::
  "accessor \<Rightarrow> nat list \<Rightarrow> nat \<Rightarrow> nat list \<Rightarrow> real list \<times> bool list \<Rightarrow> error + real list \<times> bool list" where
  "swapLoop srcAttr reorder dstCount [] (dstAttrArray, done) = Inr (dstAttrArray, done)"
| "swapLoop srcAttr reorder dstCount (i # is) (dstAttrArray, done) =
     (let r = reorder ! i in
      if r < dstCount \<and> done ! r then swapLoop srcAttr reorder dstCount is (dstAttrArray, done)
      else
        (case getElement srcAttr i of Inl e \<Rightarrow> Inl e
         | Inr el \<Rightarrow>
           swapLoop srcAttr reorder dstCount is
             (setElement (elementSize srcAttr) dstAttrArray r el, done[r := True])))"

definition swapAttributes :: "accessor \<Rightarrow> nat list \<Rightarrow> nat \<Rightarrow> error + accessor" where
  "swapAttributes srcAttr reorder dstCount =
     (case swapLoop srcAttr reorder dstCount [0..<length reorder]
             (replicate (dstCount * elementSize srcAttr) 0, replicate dstCount False)
      of Inl e \<Rightarrow> Inl e
       | Inr (dstAttrArray, done) \<Rightarrow> Inr (srcAttr\<lparr>array := dstAttrArray\<rparr>))"

fun swapEach ::
  "nat list \<Rightarrow> nat \<Rightarrow> (string \<times> accessor) list \<Rightarrow> error + (string \<times> accessor) list" where
  "swapEach reorder dstCount [] = Inr []"
| "swapEach reorder dstCount ((semantic, srcAttr) # rest) =
     (case swapAttributes srcAttr reorder dstCount of Inl e \<Rightarrow> Inl e
      | Inr dstAttr \<Rightarrow>
        (case swapEach reorder dstCount rest of Inl e \<Rightarrow> Inl e
         | Inr rest' \<Rightarrow> Inr ((semantic, dstAttr) # rest')))"

fun swapTargets ::
  "nat list \<Rightarrow> nat \<Rightarrow> (string \<times> accessor) list list \<Rightarrow> error + (string \<times> accessor) list list" where
  "swapTargets reorder dstCount [] = Inr []"
| "swapTargets reorder dstCount (target # rest) =
     (case swapEach reorder dstCount target of Inl e \<Rightarrow> Inl e
      | Inr target' \<Rightarrow>
        (case swapTargets reorder dstCount rest of Inl e \<Rightarrow> Inl e
         | Inr rest' \<Rightarrow> Inr (target' # rest')))"

subsection \<open>The orchestrator\<close>

definition priv_indexPrimitive :: "primitive \<Rightarrow> error + primitive" where
  "priv_indexPrimitive prim =
     (if indices prim \<noteq> None then Inr prim
      else (case attributes prim of
              [] \<Rightarrow> Inl MissingAttribute
            | (semantic, attr) # rest \<Rightarrow> Inr (prim\<lparr>indices := Some (createIndices (getCount attr))\<rparr>)))"

definition priv_weldPrimitive :: "(real \<Rightarrow> real) \<Rightarrow> primitive \<Rightarrow> options \<Rightarrow> error + primitive" where
  "priv_weldPrimitive fr prim options =
     (case weldMatcher fr prim options of Inl e \<Rightarrow> Inl e
      | Inr st \<Rightarrow>
        (case getAttribute (attributes prim) ''POSITION'' of None \<Rightarrow> Inl MissingPosition
         | Some srcPosition \<Rightarrow>
           (case remapIndices (writeMap st) (sourceIndices prim srcPosition) of Inl e \<Rightarrow> Inl e
            | Inr dstIndicesArray \<Rightarrow>
              (case swapEach (writeMap st) (dstVertexCount st) (attributes prim) of Inl e \<Rightarrow> Inl e
               | Inr attrs \<Rightarrow>
                 (case swapTargets (writeMap st) (dstVertexCount st) (targets prim) of Inl e \<Rightarrow> Inl e
                  | Inr tgts \<Rightarrow>
                    Inr (prim\<lparr>attributes := attrs, indices := Some dstIndicesArray,
                              targets := tgts\<rparr>))))))"

definition weldPrimitive :: "(real \<Rightarrow> real) \<Rightarrow> primitive \<Rightarrow> options \<Rightarrow> error + primitive" where
  "weldPrimitive fr prim options =
     (if indices prim \<noteq> None \<and> \<not> overwrite options then Inr prim
      else if mode prim = POINTS then Inr prim
      else if tolerance options = 0 then priv_indexPrimitive prim
      else priv_weldPrimitive fr prim options)"

fun forEach :: "('a \<Rightarrow> error + 'a) \<Rightarrow> 'a list \<Rightarrow> error + 'a list" where
  "forEach f [] = Inr []"
| "forEach f (x # xs) =
     (case f x of Inl e \<Rightarrow> Inl e
      | Inr y \<Rightarrow> (case forEach f xs of Inl e \<Rightarrow> Inl e | Inr ys \<Rightarrow> Inr (y # ys)))"

text \<open>
  \<^verbatim>\<open>weld\<close> checks the tolerance when it is called and returns the transform, a function of
  the document. The transform welds every primitive of every mesh. The exact-match
  \<^verbatim>\<open>dedup\<close> of accessors that it then runs shares equal accessors between primitives and
  does not change the values a primitive holds; it is not represented.
\<close>

definition weld :: "(real \<Rightarrow> real) \<Rightarrow> weldOptions \<Rightarrow> error + (document \<Rightarrow> error + document)" where
  "weld fr opts =
     (let options = resolveOptions opts in
      if tolerance options > 0.1 \<or> tolerance options < 0 then Inl ConfigError
      else Inr (\<lambda>doc. forEach (forEach (\<lambda>prim. weldPrimitive fr prim options)) doc))"

subsection \<open>Preconditions and the invariant of the matcher\<close>





text \<open>
  The output slots after the vertices \<open>pre\<close> have been processed, in this order:
  \<open>dstVertexCount\<close> is the number of vertices of \<open>pre\<close> that \<open>weldMap\<close> sends to themselves,
  and such a vertex has the slot that counts the vertices of this kind before it.
\<close>

definition slotsInv :: "nat list \<Rightarrow> weldState \<Rightarrow> bool" where
  "slotsInv pre st =
     (dstVertexCount st = length (filter (\<lambda>a. weldMap st ! a = a) pre)
      \<and> (\<forall>i<length pre. weldMap st ! (pre ! i) = pre ! i \<longrightarrow>
            writeMap st ! (pre ! i) = length (filter (\<lambda>a. weldMap st ! a = a) (take i pre))))"

subsection \<open>Inputs of the evaluations\<close>

text \<open>
  Line strips without indices; all but the last have the single attribute \<open>POSITION\<close>. In
  each of them the greatest position component is 16 and the smallest is 0, so the range
  is 16 and a tolerance of 1/16 gives the cell size 1, a tolerance of 1/32 the cell size
  1/2. Every number that \<^verbatim>\<open>getGridKey\<close> computes on them is a multiple of 1/4 below 600,
  which single precision represents exactly: \<^verbatim>\<open>Math.fround\<close> returns it unchanged, and the
  evaluations take the identity for \<open>fr\<close>. The same numbers are exact in double
  arithmetic, so the source computes on these inputs what the embedding computes.
\<close>

definition positionAccessor :: "real list \<Rightarrow> accessor" where
  "positionAccessor values = \<lparr>elementSize = 3, array = values\<rparr>"

definition positionsOnly :: "real list \<Rightarrow> primitive" where
  "positionsOnly values =
     \<lparr>attributes = [(''POSITION'', positionAccessor values)],
      indices = None, mode = LINE_STRIP, targets = []\<rparr>"

definition withTolerance :: "real \<Rightarrow> options" where
  "withTolerance t = \<lparr>tolerance = t, overwrite = True\<rparr>"

text \<open>Vertex 0 at (0, 16, 0) and vertex 1 at (1/2, 16, 0).\<close>

definition pairAscending :: primitive where
  "pairAscending = positionsOnly [0, 16, 0, 1 / 2, 16, 0]"

text \<open>Vertex 0 at (1/2, 16, 0) and vertex 1 at (0, 16, 0).\<close>

definition pairDescending :: primitive where
  "pairDescending = positionsOnly [1 / 2, 16, 0, 0, 16, 0]"


text \<open>Vertex 0 at (8, 16, 0) and vertex 1 at (8 + 1/4, 16, 0).\<close>

definition pairQuarter :: primitive where
  "pairQuarter = positionsOnly [8, 16, 0, 33 / 4, 16, 0]"

text \<open>Vertices 0, 1, 2 at x = 0, 4, 8: no two of them are within the tolerance.\<close>

definition spreadThree :: primitive where
  "spreadThree = positionsOnly [0, 16, 0, 4, 16, 0, 8, 16, 0]"

text \<open>Vertices 0 and 1 at x = 0 and x = 1/2 with the joint indices (0, 0, 0, 0), vertex 2
  at x = 8 with the joint indices (1, 1, 1, 1).\<close>

definition triJoints :: accessor where
  "triJoints = \<lparr>elementSize = 4, array = [0, 0, 0, 0, 0, 0, 0, 0, 1, 1, 1, 1]\<rparr>"

definition skinnedTriple :: primitive where
  "skinnedTriple =
     \<lparr>attributes = [(''POSITION'', positionAccessor [0, 16, 0, 1 / 2, 16, 0, 8, 16, 0]),
                    (''JOINTS_0'', triJoints)],
      indices = None, mode = LINE_STRIP, targets = []\<rparr>"

section \<open>Properties\<close>

subsection \<open>Unique values\<close>

lemma set_uniqueValues: "set (uniqueValues xs) = set xs"
  by (induction xs) auto

lemma distinct_uniqueValues: "distinct (uniqueValues xs)"
  by (induction xs) (auto simp: set_uniqueValues)


lemma uniqueValues_distinct: "distinct xs \<Longrightarrow> uniqueValues xs = xs"
proof (induction xs)
  case Nil
  then show ?case by simp
next
  case (Cons x xs)
  then have "filter (\<lambda>y. y \<noteq> x) xs = xs"
    by (auto intro: filter_True)
  with Cons show ?case by simp
qed

lemma uniqueValues_first_occurrence:
  "sorted_wrt (\<lambda>a b. \<exists>k<length xs. xs ! k = a \<and> b \<notin> set (take (Suc k) xs)) (uniqueValues xs)"
proof (induction xs)
  case Nil
  then show ?case by simp
next
  case (Cons x xs)
  let ?R = "\<lambda>a b. \<exists>k<length xs. xs ! k = a \<and> b \<notin> set (take (Suc k) xs)"
  let ?R' = "\<lambda>a b. \<exists>k<length (x # xs). (x # xs) ! k = a \<and> b \<notin> set (take (Suc k) (x # xs))"
  let ?f = "filter (\<lambda>y. y \<noteq> x) (uniqueValues xs)"
  from Cons.IH have s: "sorted_wrt ?R ?f" by (rule sorted_wrt_filter)
  have step: "?R' a b" if "a \<in> set ?f" "b \<in> set ?f" "?R a b" for a b
  proof -
    from that(3) obtain k where k: "k < length xs" "xs ! k = a" "b \<notin> set (take (Suc k) xs)"
      by blast
    from that(2) have "b \<noteq> x" by simp
    with k have "Suc k < length (x # xs) \<and> (x # xs) ! Suc k = a
        \<and> b \<notin> set (take (Suc (Suc k)) (x # xs))"
      by simp
    then show ?thesis by blast
  qed
  have tl: "sorted_wrt ?R' ?f"
    by (rule sorted_wrt_mono_rel [OF _ s]) (rule step)
  have hd: "?R' x b" if "b \<in> set ?f" for b
  proof -
    from that have "b \<noteq> x" by simp
    then have "0 < length (x # xs) \<and> (x # xs) ! 0 = x \<and> b \<notin> set (take (Suc 0) (x # xs))"
      by simp
    then show ?thesis by blast
  qed
  from hd tl show ?case by simp
qed

lemma uniqueValues_order:
  assumes "i < j" and "j < length (uniqueValues xs)"
  shows "\<exists>k<length xs. xs ! k = uniqueValues xs ! i
           \<and> uniqueValues xs ! j \<notin> set (take (Suc k) xs)"
  using uniqueValues_first_occurrence [of xs, unfolded sorted_wrt_iff_nth_less] assms
  by blast


subsection \<open>The invariant is kept by every step of the matcher\<close>









subsection \<open>Which accesses are in range\<close>




lemma getAttribute_listed:
  assumes "semantic \<in> set (listSemantics attrs)"
  shows "\<exists>attribute. getAttribute attrs semantic = Some attribute
           \<and> (semantic, attribute) \<in> set attrs"
proof -
  from assms have "map_of attrs semantic \<noteq> None"
    by (simp add: listSemantics_def map_of_eq_None_iff)
  then obtain attribute where "map_of attrs semantic = Some attribute" by auto
  then show ?thesis by (auto simp: getAttribute_def dest: map_of_SomeD)
qed










lemma attributeTolerances_fold:
  "fold (\<lambda>semantic tt.
           case getAttribute attrs semantic of None \<Rightarrow> tt
           | Some attribute \<Rightarrow> tt(semantic \<mapsto> getAttributeTolerance semantic attribute tol))
        xs tt0 s
   = (if s \<in> set xs
      then (case getAttribute attrs s of None \<Rightarrow> tt0 s
            | Some attribute \<Rightarrow> Some (getAttributeTolerance s attribute tol))
      else tt0 s)"
  by (induction xs arbitrary: tt0) (auto split: option.splits)

lemma attributeTolerances_lookup:
  "attributeTolerances attrs tol s =
     map_option (\<lambda>attribute. getAttributeTolerance s attribute tol) (getAttribute attrs s)"
proof (cases "s \<in> set (listSemantics attrs)")
  case True
  from getAttribute_listed [OF this] True show ?thesis
    by (auto simp: attributeTolerances_def attributeTolerances_fold)
next
  case False
  then have "getAttribute attrs s = None"
    by (simp add: getAttribute_def listSemantics_def map_of_eq_None_iff)
  with False show ?thesis
    by (simp add: attributeTolerances_def attributeTolerances_fold)
qed


lemma weldMatcher_unfold:
  assumes "getAttribute (attributes prim) ''POSITION'' = Some P"
  shows "weldMatcher fr prim options =
     (case buildGrid fr P
             (getAttributeTolerance ''POSITION'' P (max (tolerance options) EPSILON))
             (uniqueValues (sourceIndices prim P)) Map.empty of
        Inl e \<Rightarrow> Inl e
      | Inr grid \<Rightarrow>
          weldLoop fr (attributeTolerances (attributes prim) (max (tolerance options) EPSILON))
            prim P grid (getAttributeTolerance ''POSITION'' P (max (tolerance options) EPSILON))
            (uniqueValues (sourceIndices prim P))
            (initialState (length (uniqueValues (sourceIndices prim P)))))"
  using assms by (simp add: weldMatcher_def Let_def attributeTolerances_lookup)









subsection \<open>Exact and monotone comparison\<close>

lemma joints_tolerance:
  assumes "startsWith semantic ''JOINTS_''"
  shows "getAttributeTolerance semantic attribute tol = 0"
proof -
  from assms have "take (length ''JOINTS_'') semantic = ''JOINTS_''"
    by (simp only: startsWith_def)
  then have "semantic = ''JOINTS_'' @ drop (length ''JOINTS_'') semantic"
    by (metis append_take_drop_id)
  then obtain rest where "semantic = ''JOINTS_'' @ rest" ..
  then show ?thesis
    by (simp add: getAttributeTolerance_def startsWith_def Tolerance_JOINTS_def)
qed

lemma every_True:
  "every f xs = Inr True \<Longrightarrow> x \<in> set xs \<Longrightarrow> f x = Inr True"
  by (induction xs) (auto split: sum.splits if_splits)

lemma getElement_length:
  "getElement acc i = Inr el \<Longrightarrow> length el = elementSize acc"
  by (auto simp: getElement_def split: if_splits)

lemma compareAttributes_zero:
  assumes "compareAttributes attribute a b (Some 0) = Inr True"
  shows "getElement attribute b = getElement attribute a"
proof -
  from assms obtain ea eb where a: "getElement attribute a = Inr ea"
    and b: "getElement attribute b = Inr eb"
    and all: "list_all (\<lambda>i. \<not> exceeds \<bar>ea ! i - eb ! i\<bar> (Some 0)) [0..<elementSize attribute]"
    by (auto simp: compareAttributes_def split: sum.splits)
  from all have "\<forall>i<elementSize attribute. ea ! i = eb ! i"
    by (auto simp: list_all_iff exceeds_def)
  with getElement_length [OF a] getElement_length [OF b] have "ea = eb"
    by (intro nth_equalityI) simp_all
  with a b show ?thesis by simp
qed

lemma isMatch_True_base:
  "isMatch tt prim a b = Inr True \<Longrightarrow> semanticsMatch tt (attributes prim) a b = Inr True"
  by (auto simp: isMatch_def split: sum.splits)

lemma isMatch_joints:
  assumes "startsWith semantic ''JOINTS_''"
    and "getAttribute (attributes prim) semantic = Some attribute"
    and "isMatch (attributeTolerances (attributes prim) tol) prim a b = Inr True"
  shows "getElement attribute b = getElement attribute a"
proof -
  let ?tt = "attributeTolerances (attributes prim) tol"
  from assms(2) have "(semantic, attribute) \<in> set (attributes prim)"
    by (auto simp: getAttribute_def dest: map_of_SomeD)
  then have mem: "semantic \<in> set (listSemantics (attributes prim))"
    by (force simp: listSemantics_def)
  from isMatch_True_base [OF assms(3)]
  have "every (\<lambda>semantic.
              case getAttribute (attributes prim) semantic of None \<Rightarrow> Inl MissingAttribute
              | Some attribute \<Rightarrow> compareAttributes attribute a b (?tt semantic))
           (listSemantics (attributes prim)) = Inr True"
    by (simp add: semanticsMatch_def)
  from every_True [OF this mem] assms(2)
  have "compareAttributes attribute a b (?tt semantic) = Inr True" by simp
  moreover have "?tt semantic = Some 0"
    by (simp add: attributeTolerances_lookup assms(2) joints_tolerance [OF assms(1)])
  ultimately show ?thesis by (simp add: compareAttributes_zero)
qed

lemma attributeRange_pos: "0 < attributeRange attribute"
proof (cases "array attribute = []")
  case True
  then show ?thesis by (simp add: attributeRange_def)
next
  case False
  define lo where "lo = Min (set (array attribute))"
  define hi where "hi = Max (set (array attribute))"
  from False have "hd (array attribute) \<in> set (array attribute)" by simp
  then have "lo \<le> hi" unfolding lo_def hi_def
    by (meson List.finite_set Max_ge Min_le order_trans)
  moreover from False have "attributeRange attribute = (if hi - lo = 0 then 1 else hi - lo)"
    by (simp add: attributeRange_def Let_def lo_def hi_def)
  ultimately show ?thesis by simp
qed

lemma getAttributeTolerance_mono:
  "t1 \<le> t2 \<Longrightarrow> getAttributeTolerance semantic attribute t1
                  \<le> getAttributeTolerance semantic attribute t2"
  using attributeRange_pos [of attribute]
  by (simp add: getAttributeTolerance_def mult_right_mono)

lemma exceeds_tables:
  assumes "t1 \<le> t2" and "exceeds d (attributeTolerances attrs t2 semantic)"
  shows "exceeds d (attributeTolerances attrs t1 semantic)"
proof (cases "getAttribute attrs semantic")
  case None
  with assms(2) show ?thesis by (simp add: attributeTolerances_lookup)
next
  case (Some attribute)
  with assms(2) getAttributeTolerance_mono [OF assms(1), of semantic attribute]
  show ?thesis by (simp add: attributeTolerances_lookup exceeds_def)
qed

lemma compareAttributes_mono:
  assumes "\<And>d. exceeds d tol2 \<Longrightarrow> exceeds d tol1"
    and "compareAttributes attribute a b tol1 = Inr True"
  shows "compareAttributes attribute a b tol2 = Inr True"
  using assms(2) assms(1)
  by (auto simp: compareAttributes_def list_all_iff split: sum.splits)

lemma every_mono:
  "(\<And>x. x \<in> set xs \<Longrightarrow> f x = Inr True \<Longrightarrow> g x = Inr True)
     \<Longrightarrow> every f xs = Inr True \<Longrightarrow> every g xs = Inr True"
  by (induction xs) (auto split: sum.splits if_splits)

lemma semanticsMatch_mono:
  assumes "\<And>d semantic. exceeds d (tt2 semantic) \<Longrightarrow> exceeds d (tt1 semantic)"
    and "semanticsMatch tt1 attrs a b = Inr True"
  shows "semanticsMatch tt2 attrs a b = Inr True"
  using assms(2) unfolding semanticsMatch_def
proof (rule every_mono [rotated])
  fix semantic
  assume "(case getAttribute attrs semantic of None \<Rightarrow> Inl MissingAttribute
          | Some attribute \<Rightarrow> compareAttributes attribute a b (tt1 semantic)) = Inr True"
  then show "(case getAttribute attrs semantic of None \<Rightarrow> Inl MissingAttribute
          | Some attribute \<Rightarrow> compareAttributes attribute a b (tt2 semantic)) = Inr True"
    using compareAttributes_mono [OF assms(1)] by (auto split: option.splits)
qed

lemma isMatch_mono:
  assumes "\<And>d semantic. exceeds d (tt2 semantic) \<Longrightarrow> exceeds d (tt1 semantic)"
    and "isMatch tt1 prim a b = Inr True"
  shows "isMatch tt2 prim a b = Inr True"
proof -
  from assms(2) have b: "semanticsMatch tt1 (attributes prim) a b = Inr True"
    and t: "every (\<lambda>target. semanticsMatch tt1 target a b) (targets prim) = Inr True"
    by (auto simp: isMatch_def split: sum.splits)
  from semanticsMatch_mono [OF assms(1) b]
  have b2: "semanticsMatch tt2 (attributes prim) a b = Inr True" .
  from t have "every (\<lambda>target. semanticsMatch tt2 target a b) (targets prim) = Inr True"
    by (rule every_mono [rotated]) (rule semanticsMatch_mono [OF assms(1)])
  with b2 show ?thesis by (simp add: isMatch_def)
qed


subsection \<open>The transform never reports a configuration error\<close>

lemma getElement_error: "getElement acc i = Inl e \<Longrightarrow> e = AccessorRange"
  by (simp add: getElement_def split: if_splits)

lemma compareAttributes_error: "compareAttributes attribute a b tol = Inl e \<Longrightarrow> e = AccessorRange"
  by (auto simp: compareAttributes_def split: sum.splits dest: getElement_error)

lemma every_error:
  "(\<And>x e. x \<in> set xs \<Longrightarrow> f x = Inl e \<Longrightarrow> e \<noteq> ConfigError)
     \<Longrightarrow> every f xs = Inl e \<Longrightarrow> e \<noteq> ConfigError"
  by (induction xs) (auto split: sum.splits if_splits)

lemma semanticsMatch_error: "semanticsMatch tt attrs a b = Inl e \<Longrightarrow> e \<noteq> ConfigError"
  unfolding semanticsMatch_def
  by (erule every_error [rotated]) (auto split: option.splits dest: compareAttributes_error)

lemma isMatch_error: "isMatch tt prim a b = Inl e \<Longrightarrow> e \<noteq> ConfigError"
proof -
  assume h: "isMatch tt prim a b = Inl e"
  have t: "every (\<lambda>target. semanticsMatch tt target a b) (targets prim) = Inl e'
        \<Longrightarrow> e' \<noteq> ConfigError" for e'
    by (erule every_error [rotated]) (rule semanticsMatch_error)
  from h show ?thesis
    by (auto simp: isMatch_def split: sum.splits dest: semanticsMatch_error t)
qed

lemma searchCell_error:
  "searchCell tt prim P a cell st = Inl e \<Longrightarrow> e \<noteq> ConfigError"
proof (induction cell arbitrary: st)
  case Nil
  then show ?case by simp
next
  case (Cons j js)
  show ?case
  proof (cases "j < length (weldMap st)")
    case False
    with Cons.prems show ?thesis by simp
  next
    case True
    show ?thesis
    proof (cases "getElement P (weldMap st ! j)")
      case (Inl e1)
      with True Cons.prems getElement_error [OF Inl] show ?thesis by (simp add: Let_def)
    next
      case (Inr posB)
      show ?thesis
      proof (cases "isMatch tt prim a (weldMap st ! j)")
        case (Inl e1)
        with True Inr Cons.prems isMatch_error [OF Inl] show ?thesis by (simp add: Let_def)
      next
        case ok: (Inr ok)
        show ?thesis
        proof (cases ok)
          case True
          with \<open>j < length (weldMap st)\<close> Inr ok Cons.prems show ?thesis
            by (auto simp: Let_def split: if_splits)
        next
          case False
          with \<open>j < length (weldMap st)\<close> Inr ok Cons.prems
          have "searchCell tt prim P a js (st\<lparr>searchIters := searchIters st + 1\<rparr>) = Inl e"
            by (simp add: Let_def)
          then show ?thesis by (rule Cons.IH)
        qed
      qed
    qed
  qed
qed

lemma searchNeighborhood_error:
  "searchNeighborhood tt prim P grid a keys st = Inl e \<Longrightarrow> e \<noteq> ConfigError"
  by (induction keys arbitrary: st)
    (auto split: option.splits sum.splits dest: searchCell_error)

lemma recordVertex_error: "recordVertex a st = Inl e \<Longrightarrow> e \<noteq> ConfigError"
  by (auto simp: recordVertex_def split: if_splits)

lemma weldVertex_error: "weldVertex fr tt prim P grid s a st = Inl e \<Longrightarrow> e \<noteq> ConfigError"
  by (auto simp: weldVertex_def split: sum.splits
      dest: getElement_error searchNeighborhood_error recordVertex_error)

lemma weldLoop_error: "weldLoop fr tt prim P grid s as st = Inl e \<Longrightarrow> e \<noteq> ConfigError"
  by (induction as arbitrary: st) (auto split: sum.splits dest: weldVertex_error)

lemma buildGrid_error: "buildGrid fr P s vs g = Inl e \<Longrightarrow> e \<noteq> ConfigError"
  by (induction vs arbitrary: g) (auto simp: Let_def split: sum.splits dest: getElement_error)

lemma weldMatcher_error: "weldMatcher fr prim options = Inl e \<Longrightarrow> e \<noteq> ConfigError"
  by (auto simp: weldMatcher_def Let_def split: option.splits sum.splits
      dest: buildGrid_error weldLoop_error)

lemma remapIndices_error: "remapIndices wm vs = Inl e \<Longrightarrow> e \<noteq> ConfigError"
  by (induction vs) (auto split: if_splits sum.splits)

lemma swapLoop_error:
  "swapLoop srcAttr reorder dstCount ixs (dstArr, dn) = Inl e \<Longrightarrow> e \<noteq> ConfigError"
  by (induction ixs arbitrary: dstArr dn)
    (auto simp: Let_def split: if_splits sum.splits dest: getElement_error)

lemma swapAttributes_error: "swapAttributes srcAttr reorder dstCount = Inl e \<Longrightarrow> e \<noteq> ConfigError"
  by (auto simp: swapAttributes_def split: sum.splits dest: swapLoop_error)

lemma swapEach_error: "swapEach reorder dstCount attrs = Inl e \<Longrightarrow> e \<noteq> ConfigError"
  by (induction attrs) (auto split: sum.splits dest: swapAttributes_error)

lemma swapTargets_error: "swapTargets reorder dstCount tgts = Inl e \<Longrightarrow> e \<noteq> ConfigError"
  by (induction tgts) (auto split: sum.splits dest: swapEach_error)

lemma priv_weldPrimitive_error: "priv_weldPrimitive fr prim options = Inl e \<Longrightarrow> e \<noteq> ConfigError"
  by (auto simp: priv_weldPrimitive_def split: sum.splits option.splits
      dest: weldMatcher_error remapIndices_error swapEach_error swapTargets_error)

lemma weldPrimitive_error: "weldPrimitive fr prim options = Inl e \<Longrightarrow> e \<noteq> ConfigError"
  by (auto simp: weldPrimitive_def priv_indexPrimitive_def
      split: if_splits list.splits dest: priv_weldPrimitive_error)

lemma forEach_error:
  "(\<And>x e. f x = Inl e \<Longrightarrow> e \<noteq> ConfigError) \<Longrightarrow> forEach f xs = Inl e \<Longrightarrow> e \<noteq> ConfigError"
  by (induction xs) (auto split: sum.splits)

lemma transform_error:
  "forEach (forEach (\<lambda>prim. weldPrimitive fr prim options)) doc = Inl e \<Longrightarrow> e \<noteq> ConfigError"
  by (erule forEach_error [rotated], erule forEach_error [rotated]) (rule weldPrimitive_error)

subsection \<open>Output slots follow the order of processing\<close>

lemma searchCell_frame:
  "searchCell tt prim P a cell st = Inr st' \<Longrightarrow>
     writeMap st' = writeMap st \<and> dstVertexCount st' = dstVertexCount st
     \<and> (\<forall>v. v \<noteq> a \<longrightarrow> weldMap st' ! v = weldMap st ! v)"
proof (induction cell arbitrary: st)
  case Nil
  then show ?case by simp
next
  case (Cons j js)
  let ?b = "weldMap st ! j"
  let ?st1 = "st\<lparr>searchIters := searchIters st + 1\<rparr>"
  from Cons.prems have jn: "j < length (weldMap st)"
    by (auto split: if_splits)
  from Cons.prems jn obtain ok where ok: "isMatch tt prim a ?b = Inr ok"
    by (auto simp: Let_def split: sum.splits)
  show ?case
  proof (cases ok)
    case False
    with Cons.prems jn ok have "searchCell tt prim P a js ?st1 = Inr st'"
      by (auto simp: Let_def split: sum.splits)
    from Cons.IH [OF this] show ?thesis by simp
  next
    case True
    with Cons.prems jn ok have "st' = ?st1\<lparr>weldMap := (weldMap st)[a := ?b]\<rparr>"
      by (auto simp: Let_def split: sum.splits if_splits)
    then show ?thesis by simp
  qed
qed

lemma searchNeighborhood_frame:
  "searchNeighborhood tt prim P grid a keys st = Inr st' \<Longrightarrow>
     writeMap st' = writeMap st \<and> dstVertexCount st' = dstVertexCount st
     \<and> (\<forall>v. v \<noteq> a \<longrightarrow> weldMap st' ! v = weldMap st ! v)"
proof (induction keys arbitrary: st)
  case Nil
  then show ?case by simp
next
  case (Cons k ks)
  show ?case
  proof (cases "grid k")
    case None
    with Cons show ?thesis by simp
  next
    case (Some cell)
    with Cons.prems obtain st1 where c: "searchCell tt prim P a cell st = Inr st1"
      and r: "searchNeighborhood tt prim P grid a ks st1 = Inr st'"
      by (auto split: sum.splits)
    from Cons.IH [OF r] searchCell_frame [OF c] show ?thesis by simp
  qed
qed

lemma recordVertex_slot:
  assumes "recordVertex a st = Inr st'"
  shows "weldMap st' = weldMap st"
    and "v \<noteq> a \<Longrightarrow> writeMap st' ! v = writeMap st ! v"
    and "weldMap st ! a = a \<Longrightarrow>
           writeMap st' ! a = dstVertexCount st \<and> dstVertexCount st' = dstVertexCount st + 1"
    and "weldMap st ! a \<noteq> a \<Longrightarrow> dstVertexCount st' = dstVertexCount st"
  using assms by (auto simp: recordVertex_def split: if_splits)

lemma weldVertex_slot:
  assumes "weldVertex fr tt prim P grid s a st = Inr st'"
  shows "v \<noteq> a \<Longrightarrow> weldMap st' ! v = weldMap st ! v \<and> writeMap st' ! v = writeMap st ! v"
    and "weldMap st' ! a = a \<Longrightarrow>
           writeMap st' ! a = dstVertexCount st \<and> dstVertexCount st' = dstVertexCount st + 1"
    and "weldMap st' ! a \<noteq> a \<Longrightarrow> dstVertexCount st' = dstVertexCount st"
proof -
  from assms obtain posA st1 where
    n: "searchNeighborhood tt prim P grid a
          (getGridNeighborhoodKeys fr (coord posA 0) (coord posA 1) (coord posA 2) s) st = Inr st1"
    and r: "recordVertex a st1 = Inr st'"
    by (auto simp: weldVertex_def split: sum.splits)
  note f = searchNeighborhood_frame [OF n]
  note s = recordVertex_slot [OF r]
  show "v \<noteq> a \<Longrightarrow> weldMap st' ! v = weldMap st ! v \<and> writeMap st' ! v = writeMap st ! v"
    using f s(1) s(2) [of v] by simp
  show "weldMap st' ! a = a \<Longrightarrow>
           writeMap st' ! a = dstVertexCount st \<and> dstVertexCount st' = dstVertexCount st + 1"
    using f s(1) s(3) by simp
  show "weldMap st' ! a \<noteq> a \<Longrightarrow> dstVertexCount st' = dstVertexCount st"
    using f s(1) s(4) by simp
qed

lemma slotsInv_step:
  assumes v: "weldVertex fr tt prim P grid s a st = Inr st'"
    and a: "a \<notin> set pre"
    and inv: "slotsInv pre st"
  shows "slotsInv (pre @ [a]) st'"
proof -
  note f = weldVertex_slot [OF v]
  have same: "weldMap st' ! x = weldMap st ! x \<and> writeMap st' ! x = writeMap st ! x"
    if "x \<in> set pre" for x
    using f(1) [of x] that a by auto
  have flt: "filter (\<lambda>x. weldMap st' ! x = x) xs = filter (\<lambda>x. weldMap st ! x = x) xs"
    if "set xs \<subseteq> set pre" for xs
    using that same by (intro filter_cong) auto
  from inv have d: "dstVertexCount st = length (filter (\<lambda>x. weldMap st ! x = x) pre)"
    and w: "\<And>i. i < length pre \<Longrightarrow> weldMap st ! (pre ! i) = pre ! i \<Longrightarrow>
          writeMap st ! (pre ! i) = length (filter (\<lambda>x. weldMap st ! x = x) (take i pre))"
    by (simp_all add: slotsInv_def)
  have count: "dstVertexCount st' = length (filter (\<lambda>x. weldMap st' ! x = x) (pre @ [a]))"
    using f(2) f(3) d flt [of pre] by (cases "weldMap st' ! a = a") simp_all
  have slot: "writeMap st' ! ((pre @ [a]) ! i)
        = length (filter (\<lambda>x. weldMap st' ! x = x) (take i (pre @ [a])))"
    if i: "i < length (pre @ [a])" and c: "weldMap st' ! ((pre @ [a]) ! i) = (pre @ [a]) ! i" for i
  proof (cases "i < length pre")
    case True
    then have mem: "pre ! i \<in> set pre" by simp
    have sub: "set (take i pre) \<subseteq> set pre" by (rule set_take_subset)
    from True c same [OF mem] have "weldMap st ! (pre ! i) = pre ! i"
      by (simp add: nth_append)
    from w [OF True this] same [OF mem] flt [OF sub] True show ?thesis
      by (simp add: nth_append)
  next
    case False
    with i have il: "i = length pre" by simp
    with c have "weldMap st' ! a = a" by simp
    with f(2) d flt [of pre] il show ?thesis by simp
  qed
  from count slot show ?thesis unfolding slotsInv_def by blast
qed

lemma weldLoop_slots:
  "weldLoop fr tt prim P grid s as st = Inr st' \<Longrightarrow> distinct (pre @ as) \<Longrightarrow> slotsInv pre st
     \<Longrightarrow> slotsInv (pre @ as) st'"
proof (induction as arbitrary: pre st)
  case Nil
  then show ?case by simp
next
  case (Cons a as)
  from Cons.prems(1) obtain st1 where v: "weldVertex fr tt prim P grid s a st = Inr st1"
    and r: "weldLoop fr tt prim P grid s as st1 = Inr st'"
    by (auto split: sum.splits)
  from Cons.prems(2) have a: "a \<notin> set pre" and d: "distinct ((pre @ [a]) @ as)" by auto
  from Cons.IH [OF r d slotsInv_step [OF v a Cons.prems(3)]] show ?case by simp
qed

lemma weldMatcher_slots:
  assumes "weldMatcher fr prim options = Inr st"
    and "getAttribute (attributes prim) ''POSITION'' = Some P"
  shows "slotsInv (uniqueValues (sourceIndices prim P)) st"
proof -
  let ?u = "uniqueValues (sourceIndices prim P)"
  let ?tt = "attributeTolerances (attributes prim) (max (tolerance options) EPSILON)"
  let ?s = "getAttributeTolerance ''POSITION'' P (max (tolerance options) EPSILON)"
  from assms obtain grid where
    l: "weldLoop fr ?tt prim P grid ?s ?u (initialState (length ?u)) = Inr st"
    by (auto simp: weldMatcher_unfold split: sum.splits)
  have "slotsInv [] (initialState (length ?u))"
    by (simp add: slotsInv_def initialState_def)
  from weldLoop_slots [OF l _ this] show ?thesis by (simp add: distinct_uniqueValues)
qed

lemma filter_take_less:
  assumes "i < j" and "j \<le> length xs" and "Q (xs ! i)"
  shows "length (filter Q (take i xs)) < length (filter Q (take j xs))"
proof -
  from assms have "i < length (take j xs)" by simp
  from id_take_nth_drop [OF this] assms(1)
  have "take j xs = take i xs @ xs ! i # drop (Suc i) (take j xs)"
    by (simp add: min_def)
  then have "filter Q (take j xs)
      = filter Q (take i xs) @ filter Q (xs ! i # drop (Suc i) (take j xs))"
    by (metis filter_append)
  with assms(3) show ?thesis by simp
qed

subsection \<open>The errors of the compactor\<close>

lemma remapIndices_error_range: "remapIndices wm vs = Inl e \<Longrightarrow> e = MapRange"
  by (induction vs) (auto split: if_splits sum.splits)














subsection \<open>Grid keys\<close>

text \<open>
  C8. For every point and cell size, the key of the point is, per coordinate \<open>c\<close>, the
  rounding \<open>fr\<close> of \<open>c\<close> times the nearest integer of \<open>c / cellSize\<close> (the coordinate, not the
  cell size, is the factor), the three results forming the key; and the neighbourhood is
  the list of the 27 keys of the points \<open>(x + i s/2, y + j s/2, z + k s/2)\<close> for \<open>i, j, k\<close>
  from -1 to 1, \<open>k\<close> running fastest, with nothing removed: keys that coincide stay in
  the list, as at the origin.
\<close>

theorem grid_key_and_neighborhood:
  "getGridKey fr x y z s =
     (fr (x * of_int \<lfloor>x / s + 1 / 2\<rfloor>), fr (y * of_int \<lfloor>y / s + 1 / 2\<rfloor>),
      fr (z * of_int \<lfloor>z / s + 1 / 2\<rfloor>))
   \<and> getGridNeighborhoodKeys fr x y z s =
     [getGridKey fr (x + i * (s / 2)) (y + j * (s / 2)) (z + k * (s / 2)) s.
        i \<leftarrow> [- 1, 0, 1], j \<leftarrow> [- 1, 0, 1], k \<leftarrow> [- 1, 0, 1]]
   \<and> length (getGridNeighborhoodKeys fr x y z s) = 27
   \<and> \<not> distinct (getGridNeighborhoodKeys fr 0 0 0 1)"
  by (simp add: getGridKey_def getGridNeighborhoodKeys_def loop3_def jsRound_def Let_def)

subsection \<open>The orchestrator\<close>

text \<open>
  C5. \<open>weld\<close> returns the configuration error exactly when the tolerance of the resolved
  options is below 0 or above 0.1, and returns the transform exactly when the tolerance
  is in [0, 0.1]. The error is the value of the call \<open>weld fr opts\<close> itself: no document
  has been given to it, so nothing has been read or changed. It is the only error of the
  call, and the transform, applied to a document, never reports it.
\<close>

theorem weld_tolerance_check:
  "(weld fr opts = Inl ConfigError) =
     (tolerance (resolveOptions opts) < 0 \<or> 0.1 < tolerance (resolveOptions opts))
   \<and> (\<exists>transform. weld fr opts = Inr transform) =
     (0 \<le> tolerance (resolveOptions opts) \<and> tolerance (resolveOptions opts) \<le> 0.1)
   \<and> (\<forall>e. weld fr opts = Inl e \<longrightarrow> e = ConfigError)
   \<and> (\<forall>transform doc. weld fr opts = Inr transform \<longrightarrow> transform doc \<noteq> Inl ConfigError)"
proof -
  have "transform doc \<noteq> Inl ConfigError" if "weld fr opts = Inr transform" for transform doc
  proof
    assume "transform doc = Inl ConfigError"
    with that have "forEach (forEach (\<lambda>prim. weldPrimitive fr prim (resolveOptions opts))) doc
        = Inl ConfigError"
      by (auto simp: weld_def Let_def split: if_splits)
    from transform_error [OF this] show False by simp
  qed
  then show ?thesis by (auto simp: weld_def Let_def)
qed

theorem weld_tolerance_check_witness:
  "weld id \<lparr>tolerance_opt = Some 0.2, overwrite_opt = None\<rparr> = Inl ConfigError
   \<and> weld id \<lparr>tolerance_opt = Some (- 1), overwrite_opt = None\<rparr> = Inl ConfigError
   \<and> (\<exists>transform. weld id \<lparr>tolerance_opt = Some 0.1, overwrite_opt = None\<rparr> = Inr transform)
   \<and> (\<exists>transform. weld id \<lparr>tolerance_opt = None, overwrite_opt = None\<rparr> = Inr transform)"
  using weld_tolerance_check [of id "\<lparr>tolerance_opt = Some 0.2, overwrite_opt = None\<rparr>"]
    weld_tolerance_check [of id "\<lparr>tolerance_opt = Some (- 1), overwrite_opt = None\<rparr>"]
    weld_tolerance_check [of id "\<lparr>tolerance_opt = Some 0.1, overwrite_opt = None\<rparr>"]
    weld_tolerance_check [of id "\<lparr>tolerance_opt = None, overwrite_opt = None\<rparr>"]
  by (simp add: resolveOptions_def WELD_DEFAULTS_def Tolerance_DEFAULT_def)

text \<open>
  C9. \<open>weldPrimitive\<close> returns the primitive it was given, with its attributes, morph
  targets and indices as they were, when the primitive has indices and \<open>overwrite\<close> is
  false, and when the mode is \<open>POINTS\<close>, whatever the tolerance and \<open>overwrite\<close> are.
\<close>

theorem weldPrimitive_skips:
  assumes "(indices prim \<noteq> None \<and> \<not> overwrite options) \<or> mode prim = POINTS"
  shows "weldPrimitive fr prim options = Inr prim"
  using assms by (auto simp: weldPrimitive_def)

theorem weldPrimitive_skips_witness:
  "weldPrimitive id (pairAscending\<lparr>indices := Some [1, 0, 1]\<rparr>)
       \<lparr>tolerance = 1 / 16, overwrite = False\<rparr>
     = Inr (pairAscending\<lparr>indices := Some [1, 0, 1]\<rparr>)
   \<and> weldPrimitive id (pairAscending\<lparr>mode := POINTS\<rparr>) (withTolerance (1 / 16))
     = Inr (pairAscending\<lparr>mode := POINTS\<rparr>)
   \<and> indices (pairAscending\<lparr>mode := POINTS\<rparr>) = None"
  using weldPrimitive_skips [of "pairAscending\<lparr>indices := Some [1, 0, 1]\<rparr>"
      "\<lparr>tolerance = 1 / 16, overwrite = False\<rparr>" id]
    weldPrimitive_skips [of "pairAscending\<lparr>mode := POINTS\<rparr>" "withTolerance (1 / 16)" id]
  by (simp add: pairAscending_def positionsOnly_def)

text \<open>
  C4. For a primitive whose mode is not \<open>POINTS\<close> and a tolerance of 0, \<open>weldPrimitive\<close>
  fails only for a primitive with neither indices nor attributes (the source reads the
  count of the first attribute), before anything is changed. Otherwise the result has the
  attributes, the morph targets and the mode of the input; a primitive that has indices is
  returned as it is, and one without gets the identity indices \<open>[0..count)\<close>, \<open>count\<close> being
  the count of its first attribute.
\<close>

theorem weldPrimitive_zero_tolerance:
  assumes "mode prim \<noteq> POINTS" and "tolerance options = 0"
  shows "(\<forall>e. weldPrimitive fr prim options = Inl e \<longrightarrow>
            indices prim = None \<and> attributes prim = [])
     \<and> (\<forall>prim'. weldPrimitive fr prim options = Inr prim' \<longrightarrow>
            attributes prim' = attributes prim \<and> targets prim' = targets prim
          \<and> mode prim' = mode prim
          \<and> (indices prim \<noteq> None \<longrightarrow> prim' = prim)
          \<and> (indices prim = None \<longrightarrow>
               (\<exists>semantic attr rest. attributes prim = (semantic, attr) # rest
                  \<and> indices prim' = Some [0..<getCount attr])))
     \<and> (indices prim \<noteq> None \<or> attributes prim \<noteq> [] \<longrightarrow>
          (\<exists>prim'. weldPrimitive fr prim options = Inr prim'))"
  using assms
  by (auto simp: weldPrimitive_def priv_indexPrimitive_def createIndices_def
      split: list.splits)

theorem weldPrimitive_zero_tolerance_witness:
  "mode pairAscending \<noteq> POINTS \<and> tolerance (withTolerance 0) = 0
   \<and> weldPrimitive id pairAscending (withTolerance 0)
       = Inr (pairAscending\<lparr>indices := Some [0, 1]\<rparr>)
   \<and> attributes (pairAscending\<lparr>indices := Some [0, 1]\<rparr>) = attributes pairAscending
   \<and> weldPrimitive id (pairAscending\<lparr>indices := Some [1, 1, 0]\<rparr>) (withTolerance 0)
       = Inr (pairAscending\<lparr>indices := Some [1, 1, 0]\<rparr>)"
proof -
  have m: "mode pairAscending \<noteq> POINTS" "mode (pairAscending\<lparr>indices := Some [1, 1, 0]\<rparr>) \<noteq> POINTS"
    by (simp_all add: pairAscending_def positionsOnly_def)
  have t: "tolerance (withTolerance 0) = 0"
    by (simp add: withTolerance_def)
  have a: "weldPrimitive id pairAscending (withTolerance 0)
       = Inr (pairAscending\<lparr>indices := Some [0, 1]\<rparr>)"
    by code_simp
  from weldPrimitive_zero_tolerance [OF m(2) t, of id]
  have b: "weldPrimitive id (pairAscending\<lparr>indices := Some [1, 1, 0]\<rparr>) (withTolerance 0)
       = Inr (pairAscending\<lparr>indices := Some [1, 1, 0]\<rparr>)"
    by auto
  from weldPrimitive_zero_tolerance [OF m(1) t, of id] a
  have "attributes (pairAscending\<lparr>indices := Some [0, 1]\<rparr>) = attributes pairAscending"
    by simp
  with m t a b show ?thesis by simp
qed

subsection \<open>The order of processing and the search\<close>

text \<open>
  C1 (as the claim states it, refuted). The primitive \<open>spreadThree\<close> with the indices
  2, 1, 0, 2: no two of its vertices match, so every vertex keeps a slot of its own and the
  slots show the order of processing. The unique indices are 2, 1, 0, the order of first
  occurrence in the index buffer (the insertion order of the \<^verbatim>\<open>Set\<close>; nothing sorts them).
  Vertex 2 is processed first and gets slot 0, vertex 0 is processed last and gets slot
  2: the new \<open>POSITION\<close> holds the vertices in the order 2, 1, 0. Processed in ascending
  order, as the same primitive without indices is, vertex 0 gets slot 0.
\<close>

theorem processing_order_counterexample:
  "uniqueValues (sourceIndices (spreadThree\<lparr>indices := Some [2, 1, 0, 2]\<rparr>)
       (positionAccessor [0, 16, 0, 4, 16, 0, 8, 16, 0])) = [2, 1, 0]
   \<and> weldMatcher id (spreadThree\<lparr>indices := Some [2, 1, 0, 2]\<rparr>) (withTolerance (1 / 16))
     = Inr \<lparr>weldMap = [0, 1, 2], writeMap = [2, 1, 0], dstVertexCount = 3, searchIters = 8\<rparr>
   \<and> priv_weldPrimitive id (spreadThree\<lparr>indices := Some [2, 1, 0, 2]\<rparr>) (withTolerance (1 / 16))
     = Inr \<lparr>attributes = [(''POSITION'', \<lparr>elementSize = 3, array = [8, 16, 0, 4, 16, 0, 0, 16, 0]\<rparr>)],
            indices = Some [0, 1, 2, 0], mode = LINE_STRIP, targets = []\<rparr>
   \<and> weldMatcher id spreadThree (withTolerance (1 / 16))
     = Inr \<lparr>weldMap = [0, 1, 2], writeMap = [0, 1, 2], dstVertexCount = 3, searchIters = 8\<rparr>"
  by code_simp

text \<open>
  C1 (amended). The matcher processes the unique vertex indices in the order of their
  first occurrence in the index buffer, \<open>uniqueValues\<close> of the source indices, and its
  result shows that order: when it finishes without an out-of-range access, the vertices
  that \<open>weldMap\<close> sends to themselves have the output slots 0, 1, 2, ... in that order (the
  slot of such a vertex is the number of such vertices before it in the order, so it grows
  strictly along the order), and \<open>dstVertexCount\<close> is their number. The order is that of
  first occurrence: the unique indices are distinct, they are the values of the index
  buffer, and of two of them the earlier one occurs in the index buffer at a position up to
  which the later one does not occur. For a primitive without indices the order is the
  ascending order \<open>0, ..., count - 1\<close>. (Which vertex \<open>weldMap\<close> gives for a vertex that is
  merged is the subject of C2 and C3 and is not stated here.)
\<close>

theorem slots_in_processing_order:
  assumes "weldMatcher fr prim options = Inr st"
    and "getAttribute (attributes prim) ''POSITION'' = Some srcPosition"
  shows "dstVertexCount st
           = length (filter (\<lambda>a. weldMap st ! a = a)
                       (uniqueValues (sourceIndices prim srcPosition)))
       \<and> (\<forall>i<length (uniqueValues (sourceIndices prim srcPosition)).
            weldMap st ! (uniqueValues (sourceIndices prim srcPosition) ! i)
              = uniqueValues (sourceIndices prim srcPosition) ! i \<longrightarrow>
            writeMap st ! (uniqueValues (sourceIndices prim srcPosition) ! i)
              = length (filter (\<lambda>a. weldMap st ! a = a)
                          (take i (uniqueValues (sourceIndices prim srcPosition)))))
       \<and> (\<forall>i j. i < j \<and> j < length (uniqueValues (sourceIndices prim srcPosition))
              \<and> weldMap st ! (uniqueValues (sourceIndices prim srcPosition) ! i)
                  = uniqueValues (sourceIndices prim srcPosition) ! i
              \<and> weldMap st ! (uniqueValues (sourceIndices prim srcPosition) ! j)
                  = uniqueValues (sourceIndices prim srcPosition) ! j \<longrightarrow>
            writeMap st ! (uniqueValues (sourceIndices prim srcPosition) ! i)
              < writeMap st ! (uniqueValues (sourceIndices prim srcPosition) ! j))
       \<and> distinct (uniqueValues (sourceIndices prim srcPosition))
       \<and> set (uniqueValues (sourceIndices prim srcPosition))
           = set (sourceIndices prim srcPosition)
       \<and> (\<forall>i j. i < j \<and> j < length (uniqueValues (sourceIndices prim srcPosition)) \<longrightarrow>
            (\<exists>k<length (sourceIndices prim srcPosition).
               sourceIndices prim srcPosition ! k
                 = uniqueValues (sourceIndices prim srcPosition) ! i
               \<and> uniqueValues (sourceIndices prim srcPosition) ! j
                   \<notin> set (take (Suc k) (sourceIndices prim srcPosition))))
       \<and> (indices prim = None \<longrightarrow>
            uniqueValues (sourceIndices prim srcPosition) = [0..<getCount srcPosition])"
proof -
  let ?src = "sourceIndices prim srcPosition"
  let ?u = "uniqueValues ?src"
  let ?Q = "\<lambda>a. weldMap st ! a = a"
  from weldMatcher_slots [OF assms] have d: "dstVertexCount st = length (filter ?Q ?u)"
    and w: "\<And>i. i < length ?u \<Longrightarrow> ?Q (?u ! i) \<Longrightarrow>
          writeMap st ! (?u ! i) = length (filter ?Q (take i ?u))"
    by (simp_all add: slotsInv_def)
  have w': "\<forall>i<length ?u. ?Q (?u ! i) \<longrightarrow>
      writeMap st ! (?u ! i) = length (filter ?Q (take i ?u))"
    using w by blast
  have o: "writeMap st ! (?u ! i) < writeMap st ! (?u ! j)"
    if "i < j" "j < length ?u" "?Q (?u ! i)" "?Q (?u ! j)" for i j
  proof -
    from that have "i < length ?u" by simp
    from w [OF this that(3)] w [OF that(2) that(4)]
      filter_take_less [of i j ?u ?Q] that
    show ?thesis by simp
  qed
  have o': "\<forall>i j. i < j \<and> j < length ?u \<and> ?Q (?u ! i) \<and> ?Q (?u ! j) \<longrightarrow>
      writeMap st ! (?u ! i) < writeMap st ! (?u ! j)"
    using o by blast
  have ds: "distinct ?u" by (rule distinct_uniqueValues)
  have su: "set ?u = set ?src" by (rule set_uniqueValues)
  have f: "\<forall>i j. i < j \<and> j < length ?u \<longrightarrow>
      (\<exists>k<length ?src. ?src ! k = ?u ! i \<and> ?u ! j \<notin> set (take (Suc k) ?src))"
    using uniqueValues_order [of _ _ ?src] by blast
  have n: "indices prim = None \<longrightarrow> ?u = [0..<getCount srcPosition]"
    by (simp add: sourceIndices_def createIndices_def uniqueValues_distinct)
  show ?thesis
    by (intro conjI) (fact d w' o' ds su f n)+
qed

theorem slots_in_processing_order_witness:
  "weldMatcher id (spreadThree\<lparr>indices := Some [2, 1, 0, 2]\<rparr>) (withTolerance (1 / 16))
     = Inr \<lparr>weldMap = [0, 1, 2], writeMap = [2, 1, 0], dstVertexCount = 3, searchIters = 8\<rparr>
   \<and> getAttribute (attributes (spreadThree\<lparr>indices := Some [2, 1, 0, 2]\<rparr>)) ''POSITION''
     = Some (positionAccessor [0, 16, 0, 4, 16, 0, 8, 16, 0])
   \<and> sourceIndices (spreadThree\<lparr>indices := Some [2, 1, 0, 2]\<rparr>)
       (positionAccessor [0, 16, 0, 4, 16, 0, 8, 16, 0]) = [2, 1, 0, 2]
   \<and> uniqueValues [2, 1, 0, 2] = [2, 1, 0]
   \<and> writeMap \<lparr>weldMap = [0, 1, 2], writeMap = [2, 1, 0], dstVertexCount = 3, searchIters = 8\<rparr>
        ! ([2, 1, 0] ! 0)
     < writeMap \<lparr>weldMap = [0, 1, 2], writeMap = [2, 1, 0], dstVertexCount = 3, searchIters = 8\<rparr>
        ! ([2, 1, 0] ! 1)
   \<and> dstVertexCount \<lparr>weldMap = [0, 1, 2], writeMap = [2, 1, 0], dstVertexCount = 3,
        searchIters = 8\<rparr>
     = length (filter (\<lambda>a. [0, 1, 2] ! a = a) [2, 1, 0 :: nat])
   \<and> (\<exists>k<length [2, 1, 0, 2 :: nat].
         [2, 1, 0, 2] ! k = [2, 1, 0 :: nat] ! 0
         \<and> [2, 1, 0] ! 1 \<notin> set (take (Suc k) [2, 1, 0, 2 :: nat]))"
proof -
  let ?X = "spreadThree\<lparr>indices := Some [2, 1, 0, 2]\<rparr>"
  let ?P = "positionAccessor [0, 16, 0, 4, 16, 0, 8, 16, 0]"
  let ?S = "\<lparr>weldMap = [0, 1, 2], writeMap = [2, 1, 0], dstVertexCount = 3, searchIters = 8\<rparr>"
  have h1: "weldMatcher id ?X (withTolerance (1 / 16)) = Inr ?S"
    by code_simp
  have h2: "getAttribute (attributes ?X) ''POSITION'' = Some ?P"
    by code_simp
  have s: "sourceIndices ?X ?P = [2, 1, 0, 2]"
    by code_simp
  have u: "uniqueValues [2, 1, 0, 2] = [2, 1, 0]"
    by code_simp
  note c = slots_in_processing_order [OF h1 h2, unfolded s u]
  from c have c1: "dstVertexCount ?S = length (filter (\<lambda>a. weldMap ?S ! a = a) [2, 1, 0])"
    by (rule conjunct1)
  from c have c3: "\<forall>i j. i < j \<and> j < length [2, 1, 0 :: nat]
      \<and> weldMap ?S ! ([2, 1, 0] ! i) = [2, 1, 0] ! i
      \<and> weldMap ?S ! ([2, 1, 0] ! j) = [2, 1, 0] ! j
      \<longrightarrow> writeMap ?S ! ([2, 1, 0] ! i) < writeMap ?S ! ([2, 1, 0] ! j)"
    by (elim conjE)
  have pr: "(0::nat) < 1 \<and> 1 < length [2, 1, 0 :: nat]
      \<and> weldMap ?S ! ([2, 1, 0] ! 0) = [2, 1, 0] ! 0
      \<and> weldMap ?S ! ([2, 1, 0] ! 1) = [2, 1, 0] ! 1"
    by simp
  from c3 pr have c4: "writeMap ?S ! ([2, 1, 0] ! 0) < writeMap ?S ! ([2, 1, 0] ! 1)"
    by blast
  from c1 have c5: "dstVertexCount ?S = length (filter (\<lambda>a. [0, 1, 2] ! a = a) [2, 1, 0 :: nat])"
    by simp
  from c have c6: "\<forall>i j. i < j \<and> j < length [2, 1, 0 :: nat] \<longrightarrow>
      (\<exists>k<length [2, 1, 0, 2 :: nat]. [2, 1, 0, 2] ! k = [2, 1, 0 :: nat] ! i
         \<and> [2, 1, 0] ! j \<notin> set (take (Suc k) [2, 1, 0, 2 :: nat]))"
    by (elim conjE)
  have pr2: "(0::nat) < 1 \<and> 1 < length [2, 1, 0 :: nat]"
    by simp
  from c6 pr2 have c7: "\<exists>k<length [2, 1, 0, 2 :: nat]. [2, 1, 0, 2] ! k = [2, 1, 0 :: nat] ! 0
         \<and> [2, 1, 0] ! 1 \<notin> set (take (Suc k) [2, 1, 0, 2 :: nat])"
    by blast
  from h1 h2 s u c4 c5 c7 show ?thesis by (intro conjI)
qed

text \<open>
  C2 (evaluation at the failing input). The primitive \<open>pairAscending\<close>, tolerance 1/16, cell
  size 1. The first list gives, for the 27 neighbourhood keys of vertex 0 in the order
  of the loop, the cell of the grid under each key: the first cell that exists holds
  vertex 0 alone, and vertex 0 matches itself. The search for vertex 0 nevertheless
  examines six candidates (\<open>searchIters = 6\<close>) and ends with \<open>weldMap[0] = 1\<close>, the match found
  in the last cell that exists: the \<^verbatim>\<open>break\<close> leaves the loop over one cell, not the loop
  over the cell keys. Vertex 0 therefore gets no output slot of its own.
\<close>

theorem search_continues_after_first_match:
  "(case buildGrid id (positionAccessor [0, 16, 0, 1 / 2, 16, 0]) 1 [0, 1] Map.empty of
      Inl e \<Rightarrow> False
    | Inr grid \<Rightarrow>
        map grid (getGridNeighborhoodKeys id 0 16 0 1)
          = [None, None, None, Some [0], Some [0], None, None, None, None,
             None, None, None, Some [0], Some [0], None, None, None, None,
             None, None, None, Some [1], Some [1], None, None, None, None]
      \<and> searchNeighborhood (attributeTolerances (attributes pairAscending) (1 / 16))
            pairAscending (positionAccessor [0, 16, 0, 1 / 2, 16, 0]) grid 0
            (getGridNeighborhoodKeys id 0 16 0 1) (initialState 2)
          = Inr \<lparr>weldMap = [1, 1], writeMap = [0, 1], dstVertexCount = 0, searchIters = 6\<rparr>)
   \<and> isMatch (attributeTolerances (attributes pairAscending) (1 / 16)) pairAscending 0 0
       = Inr True
   \<and> weldMatcher id pairAscending (withTolerance (1 / 16))
       = Inr \<lparr>weldMap = [1, 1], writeMap = [1, 0], dstVertexCount = 1, searchIters = 10\<rparr>"
  by code_simp

subsection \<open>The compacted indices\<close>

text \<open>
  C3 (evaluation at the failing input). The primitive \<open>pairDescending\<close>, tolerance 1/16.
  Vertex 0 matches vertex 1 in the first cell it searches, before vertex 1 has been
  processed; \<open>writeMap[0]\<close> is then read from \<open>writeMap[1]\<close>, which still holds its initial
  value 1. The matcher ends with \<open>dstVertexCount = 1\<close> and \<open>writeMap = [1, 0]\<close>: the new
  index buffer is \<open>[1, 0]\<close> over an attribute of one vertex, so the value 1 is not below
  \<open>dstVertexCount\<close>. With a third, distant vertex at (8, 16, 0) the same stale entry gives
  \<open>writeMap = [1, 0, 1]\<close>: the distant vertex shares slot 1 with vertex 0, and slot 1 is
  filled with the position of vertex 0.
\<close>

theorem compacted_index_out_of_range:
  "weldMatcher id pairDescending (withTolerance (1 / 16))
     = Inr \<lparr>weldMap = [1, 1], writeMap = [1, 0], dstVertexCount = 1, searchIters = 10\<rparr>
   \<and> priv_weldPrimitive id pairDescending (withTolerance (1 / 16))
     = Inr \<lparr>attributes = [(''POSITION'', \<lparr>elementSize = 3, array = [0, 16, 0]\<rparr>)],
            indices = Some [1, 0], mode = LINE_STRIP, targets = []\<rparr>
   \<and> weldMatcher id (positionsOnly [0, 16, 0, 1 / 2, 16, 0, 8, 16, 0]) (withTolerance (1 / 16))
     = Inr \<lparr>weldMap = [1, 1, 2], writeMap = [1, 0, 1], dstVertexCount = 2, searchIters = 12\<rparr>
   \<and> priv_weldPrimitive id (positionsOnly [0, 16, 0, 1 / 2, 16, 0, 8, 16, 0])
       (withTolerance (1 / 16))
     = Inr \<lparr>attributes = [(''POSITION'', \<lparr>elementSize = 3, array = [1 / 2, 16, 0, 0, 16, 0]\<rparr>)],
            indices = Some [1, 0, 1], mode = LINE_STRIP, targets = []\<rparr>"
  by code_simp

subsection \<open>Tolerance\<close>

text \<open>
  C6 (as the claim states it, refuted). The primitive \<open>pairQuarter\<close>: with the tolerance
  1/32 (cell size 1/2) the two vertices are merged and \<open>dstVertexCount\<close> is 1; with the
  larger tolerance 1/16 (cell size 1) neither vertex lies in a neighbourhood cell of the
  other, they are never compared, and \<open>dstVertexCount\<close> is 2.
\<close>

theorem larger_tolerance_more_vertices_counterexample:
  "weldMatcher id pairQuarter (withTolerance (1 / 32))
     = Inr \<lparr>weldMap = [1, 1], writeMap = [1, 0], dstVertexCount = 1, searchIters = 8\<rparr>
   \<and> weldMatcher id pairQuarter (withTolerance (1 / 16))
     = Inr \<lparr>weldMap = [0, 1], writeMap = [0, 1], dstVertexCount = 2, searchIters = 4\<rparr>"
  by code_simp

text \<open>
  C6 (amended). When the tolerance grows, the threshold of no semantic shrinks, and two
  vertices that match on every base and morph-target attribute at the smaller tolerance
  also match at the larger one. (Which vertices are compared depends on the grid, whose
  keys change with the tolerance; \<open>dstVertexCount\<close> can grow.)
\<close>

theorem match_monotone_in_tolerance:
  assumes "tolerance options1 \<le> tolerance options2"
  shows "(\<forall>semantic attribute.
            getAttributeTolerance semantic attribute (max (tolerance options1) EPSILON)
              \<le> getAttributeTolerance semantic attribute (max (tolerance options2) EPSILON))
       \<and> (isMatch (attributeTolerances (attributes prim) (max (tolerance options1) EPSILON))
              prim a b = Inr True \<longrightarrow>
          isMatch (attributeTolerances (attributes prim) (max (tolerance options2) EPSILON))
              prim a b = Inr True)"
proof -
  from assms have le: "max (tolerance options1) EPSILON \<le> max (tolerance options2) EPSILON"
    by simp
  let ?t1 = "attributeTolerances (attributes prim) (max (tolerance options1) EPSILON)"
  let ?t2 = "attributeTolerances (attributes prim) (max (tolerance options2) EPSILON)"
  have "isMatch ?t2 prim a b = Inr True" if h: "isMatch ?t1 prim a b = Inr True"
  proof (rule isMatch_mono [OF _ h])
    fix d semantic
    assume "exceeds d (?t2 semantic)"
    then show "exceeds d (?t1 semantic)" by (rule exceeds_tables [OF le])
  qed
  with getAttributeTolerance_mono [OF le] show ?thesis by blast
qed

theorem match_monotone_in_tolerance_witness:
  "tolerance (withTolerance (1 / 32)) \<le> tolerance (withTolerance (1 / 16))
   \<and> getAttributeTolerance ''POSITION'' (positionAccessor [8, 16, 0, 33 / 4, 16, 0])
        (max (tolerance (withTolerance (1 / 32))) EPSILON)
      \<le> getAttributeTolerance ''POSITION'' (positionAccessor [8, 16, 0, 33 / 4, 16, 0])
        (max (tolerance (withTolerance (1 / 16))) EPSILON)
   \<and> isMatch (attributeTolerances (attributes pairQuarter)
                (max (tolerance (withTolerance (1 / 32))) EPSILON)) pairQuarter 0 1 = Inr True
   \<and> isMatch (attributeTolerances (attributes pairQuarter)
                (max (tolerance (withTolerance (1 / 16))) EPSILON)) pairQuarter 0 1 = Inr True"
proof -
  have h1: "tolerance (withTolerance (1 / 32)) \<le> tolerance (withTolerance (1 / 16))"
    by (simp add: withTolerance_def)
  have h2: "isMatch (attributeTolerances (attributes pairQuarter)
      (max (tolerance (withTolerance (1 / 32))) EPSILON)) pairQuarter 0 1 = Inr True"
    by code_simp
  note c = match_monotone_in_tolerance [OF h1, of pairQuarter 0 1]
  from c h2 have c2: "isMatch (attributeTolerances (attributes pairQuarter)
      (max (tolerance (withTolerance (1 / 16))) EPSILON)) pairQuarter 0 1 = Inr True"
    by blast
  from c have c1: "getAttributeTolerance ''POSITION'' (positionAccessor [8, 16, 0, 33 / 4, 16, 0])
        (max (tolerance (withTolerance (1 / 32))) EPSILON)
      \<le> getAttributeTolerance ''POSITION'' (positionAccessor [8, 16, 0, 33 / 4, 16, 0])
        (max (tolerance (withTolerance (1 / 16))) EPSILON)"
    by blast
  from h1 h2 c1 c2 show ?thesis by blast
qed

subsection \<open>Skinning\<close>

text \<open>
  C7 (evaluation at the failing input). The primitive \<open>skinnedTriple\<close>, tolerance 1/16.
  Vertices 0 and 2 differ in every component of \<open>JOINTS_0\<close> and lie 8 apart; the comparison
  rejects the pair in both directions, and \<open>weldMap\<close> keeps vertex 2 apart
  (\<open>weldMap[2] = 2\<close>). Vertex 0 matches vertex 1 before vertex 1 has been processed, and
  \<open>writeMap[0]\<close> is read from \<open>writeMap[1]\<close>, which still holds its initial value 1. Vertex 1
  then gets slot 0 and vertex 2 gets slot 1: \<open>writeMap = [1, 0, 1]\<close>. In the primitive that
  \<open>_weldPrimitive\<close> returns, vertices 0 and 2 are the one output vertex 1, whose joint
  indices are (0, 0, 0, 0): the joint indices (1, 1, 1, 1) of vertex 2 are in no element of
  the new \<open>JOINTS_0\<close>.
\<close>

theorem joints_differ_share_slot:
  "getElement triJoints 0 = Inr [0, 0, 0, 0]
   \<and> getElement triJoints 2 = Inr [1, 1, 1, 1]
   \<and> isMatch (attributeTolerances (attributes skinnedTriple) (1 / 16)) skinnedTriple 0 2 = Inr False
   \<and> isMatch (attributeTolerances (attributes skinnedTriple) (1 / 16)) skinnedTriple 2 0 = Inr False
   \<and> weldMatcher id skinnedTriple (withTolerance (1 / 16))
     = Inr \<lparr>weldMap = [1, 1, 2], writeMap = [1, 0, 1], dstVertexCount = 2, searchIters = 12\<rparr>
   \<and> priv_weldPrimitive id skinnedTriple (withTolerance (1 / 16))
     = Inr \<lparr>attributes =
              [(''POSITION'', \<lparr>elementSize = 3, array = [1 / 2, 16, 0, 0, 16, 0]\<rparr>),
               (''JOINTS_0'', \<lparr>elementSize = 4, array = [0, 0, 0, 0, 0, 0, 0, 0]\<rparr>)],
            indices = Some [1, 0, 1], mode = LINE_STRIP, targets = []\<rparr>"
  by code_simp

subsection \<open>The bounds of the maps\<close>




end
